theory Spec2Isabelle
  imports Main "HOL-Library.Option_ord" "HOL-Library.Product_Lexorder" "HOL-Library.Multiset"
begin

section \<open>The entity store (schema.sql)\<close>

text \<open>
  Timestamps are PostgreSQL timestamps: a count of microseconds, read in a session whose
  time zone is UTC, so that one day is always \<open>86400000000\<close> microseconds. The CRM reads the
  clock through \<open>NOW()\<close>, which is the start time of the current transaction; every
  operation below takes that reading as its first argument. Timestamps and intervals are
  unbounded integers here: the ends of PostgreSQL's ranges are not part of the model.
\<close>

type_synonym pg_timestamp = int

definition usec_per_day :: int where
  "usec_per_day = 86400000000"

text \<open>
  One record per table. Columns that carry the same name in several tables take the alias
  the queries of the server give the table (\<open>c\<close>, \<open>it\<close>, \<open>i\<close>) as a prefix. A nullable
  column is an \<open>option\<close>, \<open>None\<close> being SQL \<open>NULL\<close>.
\<close>

record contact =
  c_id :: int
  c_name :: string
  phone_number :: "string option"
  email :: "string option"
  relationship_type :: "string option"
  last_interaction_date :: "pg_timestamp option"
  c_created_at :: pg_timestamp
  c_updated_at :: pg_timestamp

record interaction_type =
  it_id :: int
  type_name :: string
  description :: "string option"

record interaction =
  i_id :: int
  contact_id :: int
  interaction_type_id :: int
  direction :: "string option"
  timestamp :: pg_timestamp
  duration_seconds :: "int option"
  subject :: "string option"
  i_notes :: "string option"
  i_created_at :: pg_timestamp

text \<open>
  The store: the three tables the server reads and writes, rows in insertion order, and
  the three \<open>SERIAL\<close> sequences (each holds the last value it handed out). The table
  \<open>relationship_goals\<close> is never touched by the server and is left out.
\<close>

record db =
  contacts :: "contact list"
  interaction_types :: "interaction_type list"
  interactions :: "interaction list"
  contacts_id_seq :: int
  interaction_types_id_seq :: int
  interactions_id_seq :: int

definition empty_db :: db where
  "empty_db = \<lparr>contacts = [], interaction_types = [], interactions = [],
     contacts_id_seq = 0, interaction_types_id_seq = 0, interactions_id_seq = 0\<rparr>"

text \<open>The declared column types whose limits an insert can violate.\<close>

definition int4 :: "int \<Rightarrow> bool" where
  "int4 n \<longleftrightarrow> - 2147483648 \<le> n \<and> n \<le> 2147483647"

definition varchar_ok :: "nat \<Rightarrow> string option \<Rightarrow> bool" where
  "varchar_ok n v = (case v of None \<Rightarrow> True | Some x \<Rightarrow> length x \<le> n)"

subsection \<open>Seeding the interaction types\<close>

text \<open>
  \<^verbatim>\<open>INSERT INTO interaction_types (type_name, description) VALUES ... ON CONFLICT (type_name) DO NOTHING\<close>:
  the seven rows of schema.sql, in its order. A row whose \<open>type_name\<close> is already in the
  table is skipped; the sequence has advanced all the same, as PostgreSQL computes the
  default of \<open>id\<close> before it looks for the conflict.
\<close>

definition seed_rows :: "(string \<times> string) list" where
  "seed_rows =
    [(''phone_call'', ''Voice call''),
     (''facetime_audio'', ''FaceTime audio call''),
     (''facetime_video'', ''FaceTime video call''),
     (''sms'', ''Text message''),
     (''imessage'', ''iMessage''),
     (''email'', ''Email''),
     (''calendar_meeting'', ''Calendar meeting'')]"

definition insert_type_on_conflict_do_nothing :: "string \<times> string \<Rightarrow> db \<Rightarrow> db" where
  "insert_type_on_conflict_do_nothing row s =
    (let new_id = interaction_types_id_seq s + 1;
         s1 = s\<lparr>interaction_types_id_seq := new_id\<rparr>
     in if fst row \<in> set (map type_name (interaction_types s)) then s1
        else s1\<lparr>interaction_types := interaction_types s @
               [\<lparr>it_id = new_id, type_name = fst row, description = Some (snd row)\<rparr>]\<rparr>)"

definition seed_interaction_types :: "db \<Rightarrow> db" where
  "seed_interaction_types s = foldl (\<lambda>s row. insert_type_on_conflict_do_nothing row s) s seed_rows"

section \<open>The server (POST /api/interactions)\<close>

text \<open>
  What a handler answers when it does not answer 200 or 201: the status and the text of
  the \<open>error\<close> field of the JSON body.
\<close>

datatype api_error = Status400 string | Status404 string | Status500 string

text \<open>
  The request body is a JSON object. The handler reads five of its keys; a key that is
  absent is \<open>None\<close>. \<open>body_timestamp\<close> is a \<open>timestamp\<close> key that a caller may put in
  the body: the handler never reads it.
\<close>

record request_body =
  body_contact_name :: "string option"
  body_interaction_type :: "string option"
  body_direction :: "string option"
  body_duration_seconds :: "int option"
  body_subject :: "string option"
  body_timestamp :: "pg_timestamp option"

text \<open>JavaScript's \<open>x || null\<close> on a string and on a number.\<close>

definition str_or_null :: "string option \<Rightarrow> string option" where
  "str_or_null v = (case v of None \<Rightarrow> None | Some x \<Rightarrow> if x = [] then None else Some x)"

definition num_or_null :: "int option \<Rightarrow> int option" where
  "num_or_null v = (case v of None \<Rightarrow> None | Some x \<Rightarrow> if x = 0 then None else Some x)"

text \<open>
  The statements of the transaction. Each returns the working state and either the text of
  the error PostgreSQL raises or the value the handler goes on with.
\<close>

text \<open>
  \<open>INSERT INTO contacts (name, relationship_type) VALUES ($1, $2)\<close> stores the two values,
  the next value of the sequence and the defaults of the other columns.
\<close>

definition new_contact :: "pg_timestamp \<Rightarrow> int \<Rightarrow> string \<Rightarrow> string \<Rightarrow> contact" where
  "new_contact now new_id name rel =
     \<lparr>c_id = new_id, c_name = name, phone_number = None, email = None,
      relationship_type = Some rel, last_interaction_date = None,
      c_created_at = now, c_updated_at = now\<rparr>"

definition insert_contact :: "pg_timestamp \<Rightarrow> string \<Rightarrow> string \<Rightarrow> db \<Rightarrow> (string + int) \<times> db" where
  "insert_contact now name rel s =
    (let new_id = contacts_id_seq s + 1;
         s1 = s\<lparr>contacts_id_seq := new_id\<rparr>
     in if \<not> length name \<le> 255 then (Inl ''value too long for type character varying(255)'', s1)
        else (Inr new_id, s1\<lparr>contacts := contacts s @ [new_contact now new_id name rel]\<rparr>))"

definition get_or_create_contact :: "pg_timestamp \<Rightarrow> string \<Rightarrow> db \<Rightarrow> (string + int) \<times> db" where
  "get_or_create_contact now contact_name s =
    (case filter (\<lambda>c. c_name c = contact_name) (contacts s) of
       c # _ \<Rightarrow> (Inr (c_id c), s)
     | [] \<Rightarrow> insert_contact now contact_name ''unknown'' s)"

definition valid_types_message :: "string \<Rightarrow> string" where
  "valid_types_message interaction_type =
     ''Unknown interaction type: '' @ interaction_type @
     ''. Valid types: phone_call, sms, email, imessage, facetime_audio, facetime_video, calendar_meeting''"

definition lookup_interaction_type :: "string \<Rightarrow> db \<Rightarrow> string + int" where
  "lookup_interaction_type interaction_type s =
    (case filter (\<lambda>t. type_name t = interaction_type) (interaction_types s) of
       [] \<Rightarrow> Inl (valid_types_message interaction_type)
     | t # _ \<Rightarrow> Inr (it_id t))"

definition insert_interaction ::
  "pg_timestamp \<Rightarrow> int \<Rightarrow> int \<Rightarrow> string option \<Rightarrow> int option \<Rightarrow> string option \<Rightarrow> db
     \<Rightarrow> (string + interaction) \<times> db" where
  "insert_interaction now contactId typeId dir dur subj s =
    (let new_id = interactions_id_seq s + 1;
         s1 = s\<lparr>interactions_id_seq := new_id\<rparr>;
         row = \<lparr>i_id = new_id, contact_id = contactId, interaction_type_id = typeId,
                direction = dir, timestamp = now, duration_seconds = dur, subject = subj,
                i_notes = None, i_created_at = now\<rparr>
     in if \<not> varchar_ok 20 dir then (Inl ''value too long for type character varying(20)'', s1)
        else if \<not> (case dur of None \<Rightarrow> True | Some d \<Rightarrow> int4 d) then (Inl ''integer out of range'', s1)
        else if \<not> varchar_ok 255 subj then (Inl ''value too long for type character varying(255)'', s1)
        else (Inr row, s1\<lparr>interactions := interactions s @ [row]\<rparr>))"

definition update_last_interaction :: "pg_timestamp \<Rightarrow> int \<Rightarrow> db \<Rightarrow> db" where
  "update_last_interaction now contactId s =
    s\<lparr>contacts := map (\<lambda>c. if c_id c = contactId
                             then c\<lparr>last_interaction_date := Some now, c_updated_at := now\<rparr>
                             else c) (contacts s)\<rparr>"

text \<open>
  The body of the \<open>try\<close> between \<open>BEGIN\<close> and \<open>COMMIT\<close>: the first statement that fails
  ends it, as the exception does.
\<close>

definition transaction :: "pg_timestamp \<Rightarrow> string \<Rightarrow> string \<Rightarrow> request_body \<Rightarrow> db
     \<Rightarrow> (string + interaction) \<times> db" where
  "transaction now contact_name interaction_type body s =
    (case get_or_create_contact now contact_name s of
       (Inl e, s1) \<Rightarrow> (Inl e, s1)
     | (Inr contactId, s1) \<Rightarrow>
        (case lookup_interaction_type interaction_type s1 of
           Inl e \<Rightarrow> (Inl e, s1)
         | Inr typeId \<Rightarrow>
            (case insert_interaction now contactId typeId (str_or_null (body_direction body))
                    (num_or_null (body_duration_seconds body)) (str_or_null (body_subject body)) s1 of
               (Inl e, s2) \<Rightarrow> (Inl e, s2)
             | (Inr row, s2) \<Rightarrow> (Inr row, update_last_interaction now contactId s2))))"

text \<open>
  \<open>ROLLBACK\<close> gives the tables back as they were at \<open>BEGIN\<close>. A sequence is not
  transactional: the values it handed out stay handed out.
\<close>

definition rollback :: "db \<Rightarrow> db \<Rightarrow> db" where
  "rollback s_begin s_failed =
     s_begin\<lparr>contacts_id_seq := contacts_id_seq s_failed,
             interaction_types_id_seq := interaction_types_id_seq s_failed,
             interactions_id_seq := interactions_id_seq s_failed\<rparr>"

definition record_interaction :: "pg_timestamp \<Rightarrow> request_body \<Rightarrow> db \<Rightarrow> (api_error + interaction) \<times> db" where
  "record_interaction now body s =
    (case (body_contact_name body, body_interaction_type body) of
       (Some contact_name, Some interaction_type) \<Rightarrow>
         if contact_name = [] \<or> interaction_type = []
         then (Inl (Status400 ''contact_name and interaction_type are required''), s)
         else (case transaction now contact_name interaction_type body s of
                 (Inl e, s1) \<Rightarrow> (Inl (Status500 e), rollback s s1)
               | (Inr row, s1) \<Rightarrow> (Inr row, s1))
     | _ \<Rightarrow> (Inl (Status400 ''contact_name and interaction_type are required''), s))"


text \<open>A run of requests, each with the clock reading of its transaction.\<close>

fun record_all :: "(pg_timestamp \<times> request_body) list \<Rightarrow> db \<Rightarrow> db" where
  "record_all [] s = s"
| "record_all ((now, body) # rest) s = record_all rest (snd (record_interaction now body s))"

subsection \<open>The derived column\<close>

text \<open>
  \<open>SELECT MAX(timestamp) FROM interactions WHERE contact_id = c.id\<close>: \<open>NULL\<close> over no
  rows. \<open>recompute_last_interaction\<close> is the \<open>UPDATE contacts c SET last_interaction_date = (...),
  updated_at = NOW()\<close> that ends the seed script.
\<close>

definition max_timestamp :: "pg_timestamp list \<Rightarrow> pg_timestamp option" where
  "max_timestamp ts = (case ts of [] \<Rightarrow> None | t # rest \<Rightarrow> Some (fold max rest t))"

definition interaction_times :: "db \<Rightarrow> int \<Rightarrow> pg_timestamp list" where
  "interaction_times s cid = map timestamp (filter (\<lambda>i. contact_id i = cid) (interactions s))"

definition recompute_last_interaction :: "pg_timestamp \<Rightarrow> db \<Rightarrow> db" where
  "recompute_last_interaction now s =
     s\<lparr>contacts := map (\<lambda>c. c\<lparr>last_interaction_date := max_timestamp (interaction_times s (c_id c)),
                               c_updated_at := now\<rparr>) (contacts s)\<rparr>"

text \<open>The invariant of the specification: the column holds the maximum, or \<open>NULL\<close>.\<close>

definition derived_ok :: "db \<Rightarrow> bool" where
  "derived_ok s =
     list_all (\<lambda>c. last_interaction_date c = max_timestamp (interaction_times s (c_id c))) (contacts s)"

section \<open>The server (the reads)\<close>

subsection \<open>parseInt\<close>

text \<open>
  JavaScript's \<open>parseInt\<close> with no radix, on a route parameter: leading white space
  (here the ASCII characters of that class) is skipped, then an optional sign, then \<open>0x\<close> or \<open>0X\<close> selects radix 16, then the longest
  run of digits is read; no digit gives \<open>NaN\<close>, which is \<open>None\<close> here. JavaScript
  rounds a result beyond \<open>2^53\<close> to a double; here the integer is exact.
\<close>

definition is_white_space :: "char \<Rightarrow> bool" where
  "is_white_space c \<longleftrightarrow> (of_char c :: nat) \<in> {9, 10, 11, 12, 13, 32}"

definition digit_of :: "nat \<Rightarrow> char \<Rightarrow> nat option" where
  "digit_of radix c =
    (let n = of_char c :: nat;
         v = (if 48 \<le> n \<and> n \<le> 57 then Some (n - 48)
              else if 97 \<le> n \<and> n \<le> 122 then Some (n - 87)
              else if 65 \<le> n \<and> n \<le> 90 then Some (n - 55)
              else None)
     in case v of None \<Rightarrow> None | Some d \<Rightarrow> if d < radix then Some d else None)"

fun parse_digits :: "nat \<Rightarrow> string \<Rightarrow> nat option \<Rightarrow> nat option" where
  "parse_digits radix [] acc = acc"
| "parse_digits radix (c # cs) acc =
    (case digit_of radix c of
       None \<Rightarrow> acc
     | Some d \<Rightarrow> parse_digits radix cs (Some (radix * (case acc of None \<Rightarrow> 0 | Some a \<Rightarrow> a) + d)))"

definition strip_sign :: "string \<Rightarrow> int \<times> string" where
  "strip_sign str =
    (case str of
       [] \<Rightarrow> (1, str)
     | c # cs \<Rightarrow> if c = CHR ''-'' then (- 1, cs) else if c = CHR ''+'' then (1, cs) else (1, str))"

definition strip_radix :: "string \<Rightarrow> nat \<times> string" where
  "strip_radix str =
    (case str of
       a # b # cs \<Rightarrow> if a = CHR ''0'' \<and> (b = CHR ''x'' \<or> b = CHR ''X'') then (16, cs) else (10, str)
     | _ \<Rightarrow> (10, str))"

definition parseInt :: "string \<Rightarrow> int option" where
  "parseInt str =
    (let (sign, s1) = strip_sign (dropWhile is_white_space str);
         (radix, s2) = strip_radix s1
     in map_option (\<lambda>n. sign * int n) (parse_digits radix s2 None))"

subsection \<open>GET /api/contacts and GET /api/contacts/overdue/:days\<close>

text \<open>The six columns both queries select, and the seventh of the overdue query.\<close>

record contact_row =
  cr_id :: int
  cr_name :: string
  cr_phone_number :: "string option"
  cr_email :: "string option"
  cr_relationship_type :: "string option"
  cr_last_interaction_date :: "pg_timestamp option"

record overdue_row = contact_row +
  days_since_contact :: "int option"

definition select_contact :: "contact \<Rightarrow> contact_row" where
  "select_contact c =
     \<lparr>cr_id = c_id c, cr_name = c_name c, cr_phone_number = phone_number c, cr_email = email c,
      cr_relationship_type = relationship_type c, cr_last_interaction_date = last_interaction_date c\<rparr>"

text \<open>
  \<open>ORDER BY last_interaction_date DESC NULLS LAST\<close> as an ascending sort on a key: rows
  with a date first, the later date first, then the rows with \<open>NULL\<close>. SQL leaves the order
  of rows with equal keys open; here they keep the order of the table.
\<close>

definition desc_nulls_last :: "pg_timestamp option \<Rightarrow> nat \<times> int" where
  "desc_nulls_last v = (case v of None \<Rightarrow> (1, 0) | Some t \<Rightarrow> (0, - t))"

definition get_contacts :: "db \<Rightarrow> api_error + contact_row list" where
  "get_contacts s =
     Inr (map select_contact (sort_key (\<lambda>c. desc_nulls_last (last_interaction_date c)) (contacts s)))"

text \<open>
  \<open>EXTRACT(DAY FROM NOW() - last_interaction_date)\<close>: the difference of two timestamps is
  an interval of whole days and a rest below one day, both with the sign of the difference;
  the day field is the quotient truncated towards zero.
\<close>

definition extract_day :: "int \<Rightarrow> int" where
  "extract_day d = (if d < 0 then - ((- d) div usec_per_day) else d div usec_per_day)"

definition is_overdue :: "pg_timestamp \<Rightarrow> int \<Rightarrow> contact \<Rightarrow> bool" where
  "is_overdue now days c =
     (case last_interaction_date c of None \<Rightarrow> True | Some t \<Rightarrow> t < now - usec_per_day * days)"

definition select_overdue :: "pg_timestamp \<Rightarrow> contact \<Rightarrow> overdue_row" where
  "select_overdue now c =
     contact_row.extend (select_contact c)
       (overdue_row.fields (map_option (\<lambda>t. extract_day (now - t)) (last_interaction_date c)))"

text \<open>
  \<open>ORDER BY last_interaction_date ASC NULLS FIRST\<close> is the order of \<open>option\<close>, where
  \<open>None\<close> is least. A \<open>:days\<close> that \<open>parseInt\<close> turns into \<open>NaN\<close> reaches PostgreSQL as
  the float \<open>NaN\<close>, and the product with the interval is refused.
\<close>

definition overdue_query :: "pg_timestamp \<Rightarrow> int \<Rightarrow> db \<Rightarrow> overdue_row list" where
  "overdue_query now days s =
     map (select_overdue now) (sort_key last_interaction_date (filter (is_overdue now days) (contacts s)))"

definition get_overdue :: "pg_timestamp \<Rightarrow> string \<Rightarrow> db \<Rightarrow> api_error + overdue_row list" where
  "get_overdue now days_param s =
    (case parseInt days_param of
       None \<Rightarrow> Inl (Status500 ''interval out of range'')
     | Some days \<Rightarrow> Inr (overdue_query now days s))"

subsection \<open>GET /api/contacts/:id\<close>

record detail_row =
  d_id :: int
  d_timestamp :: pg_timestamp
  d_direction :: "string option"
  d_duration_seconds :: "int option"
  d_subject :: "string option"
  d_notes :: "string option"
  d_type_name :: string

record contact_details =
  contact :: contact
  interactions_of :: "detail_row list"

definition select_detail :: "interaction \<Rightarrow> interaction_type \<Rightarrow> detail_row" where
  "select_detail i t =
     \<lparr>d_id = i_id i, d_timestamp = timestamp i, d_direction = direction i,
      d_duration_seconds = duration_seconds i, d_subject = subject i, d_notes = i_notes i,
      d_type_name = type_name t\<rparr>"

definition contact_interactions :: "int \<Rightarrow> db \<Rightarrow> detail_row list" where
  "contact_interactions contactId s =
     sort_key (\<lambda>r. - d_timestamp r)
       [select_detail i t. i \<leftarrow> interactions s, contact_id i = contactId,
                           t \<leftarrow> interaction_types s, it_id t = interaction_type_id i]"

text \<open>
  The parameter is compared with a column of type \<open>integer\<close>: PostgreSQL refuses a number
  outside that type before it looks at any row.
\<close>

definition get_contact_details :: "int \<Rightarrow> db \<Rightarrow> api_error + contact_details" where
  "get_contact_details contactId s =
    (if \<not> int4 contactId then Inl (Status500 ''integer out of range'')
     else (case filter (\<lambda>c. c_id c = contactId) (contacts s) of
             [] \<Rightarrow> Inl (Status404 ''Contact not found'')
           | c # _ \<Rightarrow> Inr \<lparr>contact = c, interactions_of = contact_interactions contactId s\<rparr>))"

subsection \<open>GET /api/contacts/:id/stats\<close>

text \<open>
  The select list of the statistics query, as written in the handler. PostgreSQL analyses
  a statement before it runs it, and refuses one in which the argument of an aggregate
  contains an aggregate of the same query level (\<open>aggregate function calls cannot be nested\<close>,
  SQLSTATE 42803). \<open>pool.query\<close> then rejects and the handler's \<open>catch\<close> answers 500 with
  the message.
\<close>

datatype sql_expr =
    Column string
  | Number int
  | Text string
  | Agg_count sql_expr
  | Agg_max sql_expr
  | Agg_min sql_expr
  | Agg_avg sql_expr
  | Case_when_eq sql_expr sql_expr sql_expr
  | Extract_day sql_expr
  | Minus sql_expr sql_expr
  | Divide sql_expr sql_expr
  | Nullif sql_expr sql_expr
  | Round_of sql_expr

fun has_aggregate :: "sql_expr \<Rightarrow> bool" where
  "has_aggregate (Agg_count e) = True"
| "has_aggregate (Agg_max e) = True"
| "has_aggregate (Agg_min e) = True"
| "has_aggregate (Agg_avg e) = True"
| "has_aggregate (Case_when_eq a b c) = (has_aggregate a \<or> has_aggregate b \<or> has_aggregate c)"
| "has_aggregate (Extract_day e) = has_aggregate e"
| "has_aggregate (Minus a b) = (has_aggregate a \<or> has_aggregate b)"
| "has_aggregate (Divide a b) = (has_aggregate a \<or> has_aggregate b)"
| "has_aggregate (Nullif a b) = (has_aggregate a \<or> has_aggregate b)"
| "has_aggregate (Round_of e) = has_aggregate e"
| "has_aggregate _ = False"

fun nested_aggregate :: "sql_expr \<Rightarrow> bool" where
  "nested_aggregate (Agg_count e) = has_aggregate e"
| "nested_aggregate (Agg_max e) = has_aggregate e"
| "nested_aggregate (Agg_min e) = has_aggregate e"
| "nested_aggregate (Agg_avg e) = has_aggregate e"
| "nested_aggregate (Case_when_eq a b c) = (nested_aggregate a \<or> nested_aggregate b \<or> nested_aggregate c)"
| "nested_aggregate (Extract_day e) = nested_aggregate e"
| "nested_aggregate (Minus a b) = (nested_aggregate a \<or> nested_aggregate b)"
| "nested_aggregate (Divide a b) = (nested_aggregate a \<or> nested_aggregate b)"
| "nested_aggregate (Nullif a b) = (nested_aggregate a \<or> nested_aggregate b)"
| "nested_aggregate (Round_of e) = nested_aggregate e"
| "nested_aggregate _ = False"

definition stats_select_list :: "sql_expr list" where
  "stats_select_list =
    [Column ''c.name'',
     Agg_count (Column ''i.id''),
     Agg_count (Case_when_eq (Column ''i.direction'') (Text ''outgoing'') (Number 1)),
     Agg_count (Case_when_eq (Column ''i.direction'') (Text ''incoming'') (Number 1)),
     Agg_max (Column ''i.timestamp''),
     Agg_min (Column ''i.timestamp''),
     Round_of (Agg_avg (Divide (Extract_day (Minus (Agg_max (Column ''i.timestamp'')) (Agg_min (Column ''i.timestamp''))))
                        (Nullif (Minus (Agg_count (Column ''i.id'')) (Number 1)) (Number 0))))]"

definition analyse :: "sql_expr list \<Rightarrow> string option" where
  "analyse select_list =
     (if list_ex nested_aggregate select_list
      then Some ''aggregate function calls cannot be nested'' else None)"

text \<open>
  What the select list computes over one group of \<open>contacts c LEFT JOIN interactions i\<close>,
  for a statement that passes the analysis: the counts skip \<open>NULL\<close>, \<open>MIN\<close> and \<open>MAX\<close>
  are \<open>NULL\<close> over no interaction, \<open>NULLIF(n - 1, 0)\<close> makes the quotient \<open>NULL\<close> for one
  interaction, and \<open>ROUND\<close> rounds the quotient to the nearest integer.
\<close>

record stats_row =
  st_name :: string
  total_interactions :: int
  outgoing_count :: int
  incoming_count :: int
  last_interaction :: "pg_timestamp option"
  first_interaction :: "pg_timestamp option"
  avg_days_between_interactions :: "int option"

definition min_timestamp :: "pg_timestamp list \<Rightarrow> pg_timestamp option" where
  "min_timestamp ts = (case ts of [] \<Rightarrow> None | t # rest \<Rightarrow> Some (fold min rest t))"

definition avg_days :: "pg_timestamp list \<Rightarrow> int option" where
  "avg_days ts =
    (case (max_timestamp ts, min_timestamp ts) of
       (Some hi, Some lo) \<Rightarrow>
         (let n = int (length ts) - 1
          in if n = 0 then None else Some ((2 * extract_day (hi - lo) + n) div (2 * n)))
     | _ \<Rightarrow> None)"

definition stats_group :: "string \<Rightarrow> interaction list \<Rightarrow> stats_row" where
  "stats_group name is =
     \<lparr>st_name = name,
      total_interactions = int (length is),
      outgoing_count = int (length (filter (\<lambda>i. direction i = Some ''outgoing'') is)),
      incoming_count = int (length (filter (\<lambda>i. direction i = Some ''incoming'') is)),
      last_interaction = max_timestamp (map timestamp is),
      first_interaction = min_timestamp (map timestamp is),
      avg_days_between_interactions = avg_days (map timestamp is)\<rparr>"

definition stats_query :: "int \<Rightarrow> db \<Rightarrow> stats_row list" where
  "stats_query contactId s =
    (let cs = filter (\<lambda>c. c_id c = contactId) (contacts s)
     in map (\<lambda>name. stats_group name
                [i. c \<leftarrow> cs, c_name c = name, i \<leftarrow> interactions s, contact_id i = c_id c])
            (remdups (map c_name cs)))"

definition get_contact_stats :: "int \<Rightarrow> db \<Rightarrow> api_error + stats_row" where
  "get_contact_stats contactId s =
    (case analyse stats_select_list of
       Some e \<Rightarrow> Inl (Status500 e)
     | None \<Rightarrow>
        (if \<not> int4 contactId then Inl (Status500 ''integer out of range'')
         else (case stats_query contactId s of
                 [] \<Rightarrow> Inl (Status404 ''Contact not found'')
               | r # _ \<Rightarrow> Inr r)))"

subsection \<open>GET /api/interactions/recent/:limit\<close>

record recent_row =
  r_id :: int
  r_timestamp :: pg_timestamp
  r_direction :: "string option"
  r_duration_seconds :: "int option"
  r_subject :: "string option"
  r_contact_name :: string
  r_type_name :: string

definition select_recent :: "interaction \<Rightarrow> contact \<Rightarrow> interaction_type \<Rightarrow> recent_row" where
  "select_recent i c t =
     \<lparr>r_id = i_id i, r_timestamp = timestamp i, r_direction = direction i,
      r_duration_seconds = duration_seconds i, r_subject = subject i,
      r_contact_name = c_name c, r_type_name = type_name t\<rparr>"

text \<open>
  \<open>interactions i JOIN contacts c ON i.contact_id = c.id JOIN interaction_types it ON
  i.interaction_type_id = it.id\<close>: the rows one interaction contributes, then all of them.
\<close>

definition recent_rows_of :: "db \<Rightarrow> interaction \<Rightarrow> recent_row list" where
  "recent_rows_of s i =
     [select_recent i c t. c \<leftarrow> contacts s, contact_id i = c_id c,
                           t \<leftarrow> interaction_types s, interaction_type_id i = it_id t]"

definition recent_join :: "db \<Rightarrow> recent_row list" where
  "recent_join s = concat (map (recent_rows_of s) (interactions s))"

definition recent_query :: "int \<Rightarrow> db \<Rightarrow> recent_row list" where
  "recent_query limit s = take (nat limit) (sort_key (\<lambda>r. - r_timestamp r) (recent_join s))"

text \<open>
  \<open>parseInt(req.params.limit) || 10\<close>: \<open>NaN\<close> and \<open>0\<close> are falsy. PostgreSQL refuses a
  negative \<open>LIMIT\<close>.
\<close>

definition limit_or_10 :: "string \<Rightarrow> int" where
  "limit_or_10 limit_param =
     (case parseInt limit_param of None \<Rightarrow> 10 | Some n \<Rightarrow> if n = 0 then 10 else n)"

definition get_recent_interactions :: "string \<Rightarrow> db \<Rightarrow> api_error + recent_row list" where
  "get_recent_interactions limit_param s =
    (let limit = limit_or_10 limit_param
     in if limit < 0 then Inl (Status500 ''LIMIT must not be negative'')
        else Inr (recent_query limit s))"

subsection \<open>The client (apiClient.js)\<close>






section \<open>Well-formed requests and stores\<close>



text \<open>
  The constraints schema.sql declares: the primary keys of \<open>contacts\<close> and
  \<open>interaction_types\<close>, and the two foreign keys of \<open>interactions\<close>.
\<close>

definition store_ok :: "db \<Rightarrow> bool" where
  "store_ok s \<longleftrightarrow>
     distinct (map c_id (contacts s)) \<and>
     distinct (map it_id (interaction_types s)) \<and>
     list_all (\<lambda>i. contact_id i \<in> c_id ` set (contacts s) \<and>
                    interaction_type_id i \<in> it_id ` set (interaction_types s)) (interactions s)"

text \<open>No contact carries an id that the sequence has yet to hand out.\<close>

definition seqs_ahead :: "db \<Rightarrow> bool" where
  "seqs_ahead s = list_all (\<lambda>c. c_id c \<le> contacts_id_seq s) (contacts s)"

text \<open>A contact that owns no interaction has no date in its derived column.\<close>

definition never_contacted_null :: "db \<Rightarrow> bool" where
  "never_contacted_null s =
     list_all (\<lambda>c. interaction_times s (c_id c) \<noteq> [] \<or> last_interaction_date c = None) (contacts s)"

section \<open>Example stores and requests\<close>

text \<open>
  The store after schema.sql has run on an empty database, and the request of the smoke
  test (test-api.js) for a given contact and type. \<open>days n\<close> is the timestamp \<open>n\<close>
  days after the epoch. \<open>example_db\<close> is a small store in the manner of the seed script,
  read at day 100: Mom was called 3 and 10 days ago, Tom 47 days ago, Lisa never.
\<close>

definition seeded_db :: db where
  "seeded_db = seed_interaction_types empty_db"

definition example_request :: "string \<Rightarrow> string \<Rightarrow> request_body" where
  "example_request name ty =
     \<lparr>body_contact_name = Some name, body_interaction_type = Some ty,
      body_direction = Some ''outgoing'', body_duration_seconds = Some 300,
      body_subject = None, body_timestamp = None\<rparr>"

definition days :: "int \<Rightarrow> pg_timestamp" where
  "days n = n * usec_per_day"

definition example_db :: db where
  "example_db =
     seeded_db\<lparr>contacts :=
       [\<lparr>c_id = 1, c_name = ''Mom'', phone_number = Some ''555-0101'', email = None,
          relationship_type = Some ''family'', last_interaction_date = Some (days 97),
          c_created_at = days 100, c_updated_at = days 100\<rparr>,
        \<lparr>c_id = 2, c_name = ''Tom Reyes'', phone_number = Some ''555-0203'', email = None,
          relationship_type = Some ''friend'', last_interaction_date = Some (days 53),
          c_created_at = days 100, c_updated_at = days 100\<rparr>,
        \<lparr>c_id = 3, c_name = ''Lisa Tran'', phone_number = Some ''555-0205'', email = None,
          relationship_type = Some ''friend'', last_interaction_date = None,
          c_created_at = days 100, c_updated_at = days 100\<rparr>],
      interactions :=
       [\<lparr>i_id = 1, contact_id = 1, interaction_type_id = 1, direction = Some ''incoming'',
          timestamp = days 97, duration_seconds = Some 900, subject = None, i_notes = None,
          i_created_at = days 100\<rparr>,
        \<lparr>i_id = 2, contact_id = 1, interaction_type_id = 1, direction = Some ''outgoing'',
          timestamp = days 90, duration_seconds = Some 1200, subject = None, i_notes = None,
          i_created_at = days 100\<rparr>,
        \<lparr>i_id = 3, contact_id = 2, interaction_type_id = 4, direction = Some ''outgoing'',
          timestamp = days 53, duration_seconds = None, subject = None, i_notes = None,
          i_created_at = days 100\<rparr>],
      contacts_id_seq := 3, interactions_id_seq := 3\<rparr>"

section \<open>Seeding is idempotent\<close>

text \<open>
  A run of the statement adds the names that are missing and nothing else, so a second run
  finds every name and leaves the table alone.
\<close>

lemma insert_type_names:
  "type_name ` set (interaction_types (insert_type_on_conflict_do_nothing row s)) =
     insert (fst row) (type_name ` set (interaction_types s))"
  by (auto simp: insert_type_on_conflict_do_nothing_def Let_def)

lemma foldl_insert_type_names:
  "type_name ` set (interaction_types (foldl (\<lambda>s row. insert_type_on_conflict_do_nothing row s) s rows)) =
     fst ` set rows \<union> type_name ` set (interaction_types s)"
  by (induction rows arbitrary: s) (simp_all add: insert_type_names)

lemma foldl_insert_type_present:
  "fst ` set rows \<subseteq> type_name ` set (interaction_types s) \<Longrightarrow>
   interaction_types (foldl (\<lambda>s row. insert_type_on_conflict_do_nothing row s) s rows) = interaction_types s"
proof (induction rows arbitrary: s)
  case Nil
  then show ?case by simp
next
  case (Cons row rows)
  have same: "interaction_types (insert_type_on_conflict_do_nothing row s) = interaction_types s"
    using Cons.prems by (auto simp: insert_type_on_conflict_do_nothing_def Let_def)
  with Cons show ?case by simp
qed

lemma seed_twice:
  "interaction_types (seed_interaction_types (seed_interaction_types s)) =
   interaction_types (seed_interaction_types s)"
  unfolding seed_interaction_types_def
  by (rule foldl_insert_type_present) (simp add: foldl_insert_type_names)

lemma seed_funpow:
  "interaction_types ((seed_interaction_types ^^ Suc n) s) = interaction_types (seed_interaction_types s)"
  by (induction n) (simp_all add: seed_twice)

text \<open>The example stores, evaluated.\<close>

lemma seeded_types:
  "interaction_types seeded_db =
    [\<lparr>it_id = 1, type_name = ''phone_call'', description = Some ''Voice call''\<rparr>,
     \<lparr>it_id = 2, type_name = ''facetime_audio'', description = Some ''FaceTime audio call''\<rparr>,
     \<lparr>it_id = 3, type_name = ''facetime_video'', description = Some ''FaceTime video call''\<rparr>,
     \<lparr>it_id = 4, type_name = ''sms'', description = Some ''Text message''\<rparr>,
     \<lparr>it_id = 5, type_name = ''imessage'', description = Some ''iMessage''\<rparr>,
     \<lparr>it_id = 6, type_name = ''email'', description = Some ''Email''\<rparr>,
     \<lparr>it_id = 7, type_name = ''calendar_meeting'', description = Some ''Calendar meeting''\<rparr>]"
  by (simp add: seeded_db_def seed_interaction_types_def seed_rows_def empty_db_def
      insert_type_on_conflict_do_nothing_def Let_def)

lemma seeded_db_eq:
  "seeded_db =
    \<lparr>contacts = [],
     interaction_types =
      [\<lparr>it_id = 1, type_name = ''phone_call'', description = Some ''Voice call''\<rparr>,
       \<lparr>it_id = 2, type_name = ''facetime_audio'', description = Some ''FaceTime audio call''\<rparr>,
       \<lparr>it_id = 3, type_name = ''facetime_video'', description = Some ''FaceTime video call''\<rparr>,
       \<lparr>it_id = 4, type_name = ''sms'', description = Some ''Text message''\<rparr>,
       \<lparr>it_id = 5, type_name = ''imessage'', description = Some ''iMessage''\<rparr>,
       \<lparr>it_id = 6, type_name = ''email'', description = Some ''Email''\<rparr>,
       \<lparr>it_id = 7, type_name = ''calendar_meeting'', description = Some ''Calendar meeting''\<rparr>],
     interactions = [], contacts_id_seq = 0, interaction_types_id_seq = 7, interactions_id_seq = 0\<rparr>"
  by (simp add: seeded_db_def seed_interaction_types_def seed_rows_def empty_db_def
      insert_type_on_conflict_do_nothing_def Let_def)

lemma example_db_eq:
  "example_db =
    \<lparr>contacts =
       [\<lparr>c_id = 1, c_name = ''Mom'', phone_number = Some ''555-0101'', email = None,
          relationship_type = Some ''family'', last_interaction_date = Some 8380800000000,
          c_created_at = 8640000000000, c_updated_at = 8640000000000\<rparr>,
        \<lparr>c_id = 2, c_name = ''Tom Reyes'', phone_number = Some ''555-0203'', email = None,
          relationship_type = Some ''friend'', last_interaction_date = Some 4579200000000,
          c_created_at = 8640000000000, c_updated_at = 8640000000000\<rparr>,
        \<lparr>c_id = 3, c_name = ''Lisa Tran'', phone_number = Some ''555-0205'', email = None,
          relationship_type = Some ''friend'', last_interaction_date = None,
          c_created_at = 8640000000000, c_updated_at = 8640000000000\<rparr>],
     interaction_types = interaction_types seeded_db,
     interactions =
       [\<lparr>i_id = 1, contact_id = 1, interaction_type_id = 1, direction = Some ''incoming'',
          timestamp = 8380800000000, duration_seconds = Some 900, subject = None, i_notes = None,
          i_created_at = 8640000000000\<rparr>,
        \<lparr>i_id = 2, contact_id = 1, interaction_type_id = 1, direction = Some ''outgoing'',
          timestamp = 7776000000000, duration_seconds = Some 1200, subject = None, i_notes = None,
          i_created_at = 8640000000000\<rparr>,
        \<lparr>i_id = 3, contact_id = 2, interaction_type_id = 4, direction = Some ''outgoing'',
          timestamp = 4579200000000, duration_seconds = None, subject = None, i_notes = None,
          i_created_at = 8640000000000\<rparr>],
     contacts_id_seq = 3, interaction_types_id_seq = 7, interactions_id_seq = 3\<rparr>"
  by (simp add: example_db_def seeded_db_eq days_def usec_per_day_def)


text \<open>
  Claim C9. Running the seeding statement of schema.sql once on an empty database, or any
  number of further times, leaves \<open>interaction_types\<close> with exactly the seven seeded rows
  (names and descriptions in the order of the file, ids 1 to 7), no name twice; and on any
  store, a further run of the statement changes nothing in the table. The statement has no
  failing branch: a row in conflict is skipped.
\<close>

theorem catalog_seeding_idempotent:
  "interaction_types ((seed_interaction_types ^^ Suc n) empty_db) =
     [\<lparr>it_id = 1, type_name = ''phone_call'', description = Some ''Voice call''\<rparr>,
      \<lparr>it_id = 2, type_name = ''facetime_audio'', description = Some ''FaceTime audio call''\<rparr>,
      \<lparr>it_id = 3, type_name = ''facetime_video'', description = Some ''FaceTime video call''\<rparr>,
      \<lparr>it_id = 4, type_name = ''sms'', description = Some ''Text message''\<rparr>,
      \<lparr>it_id = 5, type_name = ''imessage'', description = Some ''iMessage''\<rparr>,
      \<lparr>it_id = 6, type_name = ''email'', description = Some ''Email''\<rparr>,
      \<lparr>it_id = 7, type_name = ''calendar_meeting'', description = Some ''Calendar meeting''\<rparr>] \<and>
   map type_name (interaction_types ((seed_interaction_types ^^ Suc n) empty_db)) =
     [''phone_call'', ''facetime_audio'', ''facetime_video'', ''sms'', ''imessage'', ''email'',
      ''calendar_meeting''] \<and>
   length (interaction_types ((seed_interaction_types ^^ Suc n) empty_db)) = 7 \<and>
   distinct (map type_name (interaction_types ((seed_interaction_types ^^ Suc n) empty_db))) \<and>
   interaction_types ((seed_interaction_types ^^ Suc n) s) = interaction_types (seed_interaction_types s)"
proof -
  have run: "interaction_types ((seed_interaction_types ^^ Suc n) empty_db) = interaction_types seeded_db"
    unfolding seeded_db_def by (rule seed_funpow)
  show ?thesis
    unfolding run by (simp add: seeded_types seed_funpow del: funpow.simps)
qed

section \<open>Recording an interaction\<close>

lemma get_or_create_contact_shape:
  assumes "get_or_create_contact now name s = (r, s0)"
  shows "interactions s0 = interactions s \<and> interaction_types s0 = interaction_types s \<and>
         (case r of
            Inl e \<Rightarrow> \<not> length name \<le> 255
          | Inr cid \<Rightarrow>
              (name \<in> c_name ` set (contacts s) \<and> s0 = s \<and>
                 (\<exists>c cs. filter (\<lambda>c. c_name c = name) (contacts s) = c # cs \<and> c_id c = cid)) \<or>
              (name \<notin> c_name ` set (contacts s) \<and> cid = contacts_id_seq s + 1 \<and>
                 contacts s0 = contacts s @ [new_contact now cid name ''unknown'']))"
proof (cases "filter (\<lambda>c. c_name c = name) (contacts s)")
  case Nil
  then have "name \<notin> c_name ` set (contacts s)"
    by (auto simp: filter_empty_conv)
  with Nil assms show ?thesis
    by (auto simp: get_or_create_contact_def insert_contact_def Let_def
             split: if_splits sum.splits)
next
  case (Cons c cs)
  then have "c \<in> set (filter (\<lambda>c. c_name c = name) (contacts s))" by simp
  then have "name \<in> c_name ` set (contacts s)" by auto
  with Cons assms show ?thesis
    by (auto simp: get_or_create_contact_def split: sum.splits)
qed

lemma record_interaction_Inl:
  assumes "record_interaction now body s = (Inl e, s')"
  shows "contacts s' = contacts s \<and> interactions s' = interactions s \<and>
         interaction_types s' = interaction_types s"
  using assms
  by (auto simp: record_interaction_def rollback_def split: option.splits if_splits prod.splits sum.splits)

lemma record_interaction_Inr:
  assumes "record_interaction now body s = (Inr row, s')"
  shows "\<exists>name cs.
           body_contact_name body = Some name \<and>
           ((name \<in> c_name ` set (contacts s) \<and> cs = contacts s \<and>
               (\<exists>c rest. filter (\<lambda>c. c_name c = name) (contacts s) = c # rest \<and> c_id c = contact_id row)) \<or>
            (name \<notin> c_name ` set (contacts s) \<and> contact_id row = contacts_id_seq s + 1 \<and>
               cs = contacts s @ [new_contact now (contact_id row) name ''unknown''])) \<and>
           contacts s' = map (\<lambda>c. if c_id c = contact_id row
                                   then c\<lparr>last_interaction_date := Some now, c_updated_at := now\<rparr>
                                   else c) cs \<and>
           interactions s' = interactions s @ [row] \<and> timestamp row = now \<and>
           interaction_types s' = interaction_types s"
proof -
  from assms obtain name ty where body: "body_contact_name body = Some name"
    and tr: "transaction now name ty body s = (Inr row, s')"
    by (auto simp: record_interaction_def split: option.splits if_splits prod.splits sum.splits)
  obtain r s0 where goc: "get_or_create_contact now name s = (r, s0)"
    by (cases "get_or_create_contact now name s")
  from tr goc obtain cid where r: "r = Inr cid"
    by (cases r) (auto simp: transaction_def)
  from tr goc r obtain tid where ty: "lookup_interaction_type ty s0 = Inr tid"
    by (cases "lookup_interaction_type ty s0") (auto simp: transaction_def)
  from tr goc r ty obtain s2 where
    ins: "insert_interaction now cid tid (str_or_null (body_direction body))
            (num_or_null (body_duration_seconds body)) (str_or_null (body_subject body)) s0 = (Inr row, s2)"
    and s': "s' = update_last_interaction now cid s2"
    by (auto simp: transaction_def split: prod.splits sum.splits)
  from ins have row: "contact_id row = cid" "timestamp row = now"
    and s2: "interactions s2 = interactions s0 @ [row]" "contacts s2 = contacts s0"
       "interaction_types s2 = interaction_types s0"
    by (auto simp: insert_interaction_def Let_def split: if_splits)
  from get_or_create_contact_shape[OF goc] r
  have shape: "interactions s0 = interactions s" "interaction_types s0 = interaction_types s"
     "(name \<in> c_name ` set (contacts s) \<and> contacts s0 = contacts s \<and>
         (\<exists>c rest. filter (\<lambda>c. c_name c = name) (contacts s) = c # rest \<and> c_id c = cid)) \<or>
      (name \<notin> c_name ` set (contacts s) \<and> cid = contacts_id_seq s + 1 \<and>
         contacts s0 = contacts s @ [new_contact now cid name ''unknown''])"
    by auto
  show ?thesis
    using shape row s2 s' body
    by (auto simp: update_last_interaction_def)
qed









lemmas record_defs = record_interaction_def transaction_def get_or_create_contact_def
  insert_contact_def new_contact_def lookup_interaction_type_def insert_interaction_def
  update_last_interaction_def rollback_def str_or_null_def num_or_null_def varchar_ok_def
  int4_def example_request_def Let_def















section \<open>The derived last-interaction date\<close>

lemma max_timestamp_Max:
  "max_timestamp ts = (if ts = [] then None else Some (Max (set ts)))"
proof (cases ts)
  case Nil
  then show ?thesis by (simp add: max_timestamp_def)
next
  case (Cons t rest)
  then show ?thesis
    using Max.set_eq_fold[of t rest] by (simp add: max_timestamp_def)
qed

lemma max_timestamp_snoc:
  assumes "\<forall>t\<in>set ts. t \<le> now"
  shows "max_timestamp (ts @ [now]) = Some now"
proof -
  have "Max (insert now (set ts)) = now"
    using assms by (intro Max_eqI) auto
  then show ?thesis by (simp add: max_timestamp_Max)
qed

lemma record_interaction_derived_ok:
  assumes inv: "derived_ok s" and le: "\<forall>i\<in>set (interactions s). timestamp i \<le> now"
  shows "derived_ok (snd (record_interaction now body s))"
proof (cases "record_interaction now body s")
  case (Pair r s')
  show ?thesis
  proof (cases r)
    case (Inl e)
    with Pair record_interaction_Inl[of now body s e s'] inv show ?thesis
      by (simp add: derived_ok_def interaction_times_def)
  next
    case (Inr row)
    with Pair have rec: "record_interaction now body s = (Inr row, s')" by simp
    from record_interaction_Inr[OF rec] obtain name cs where
      cs: "cs = contacts s \<or> cs = contacts s @ [new_contact now (contact_id row) name ''unknown'']"
      and cont: "contacts s' = map (\<lambda>c. if c_id c = contact_id row
                                   then c\<lparr>last_interaction_date := Some now, c_updated_at := now\<rparr>
                                   else c) cs"
      and ints: "interactions s' = interactions s @ [row]" and ts: "timestamp row = now"
      by blast
    have times: "interaction_times s' cid =
        (if cid = contact_id row then interaction_times s cid @ [now] else interaction_times s cid)" for cid
      by (auto simp: interaction_times_def ints ts)
    have bound: "\<forall>t\<in>set (interaction_times s cid). t \<le> now" for cid
      using le by (auto simp: interaction_times_def)
    have old: "c \<in> set (contacts s) \<Longrightarrow>
        last_interaction_date c = max_timestamp (interaction_times s (c_id c))" for c
      using inv by (simp add: derived_ok_def list_all_iff)
    have "c \<in> set cs \<Longrightarrow> c_id c \<noteq> contact_id row \<Longrightarrow>
        last_interaction_date c = max_timestamp (interaction_times s (c_id c))" for c
      using cs old by (auto simp: new_contact_def)
    then have "derived_ok s'"
      by (auto simp: derived_ok_def list_all_iff cont times max_timestamp_snoc[OF bound])
    with Pair show ?thesis by simp
  qed
qed

lemma record_interaction_times_bound:
  assumes "\<forall>i\<in>set (interactions s). timestamp i \<le> b" and "now \<le> b"
  shows "\<forall>i\<in>set (interactions (snd (record_interaction now body s))). timestamp i \<le> b"
proof (cases "record_interaction now body s")
  case (Pair r s')
  show ?thesis
  proof (cases r)
    case (Inl e)
    with Pair record_interaction_Inl[of now body s e s'] assms show ?thesis by simp
  next
    case (Inr row)
    with Pair have "record_interaction now body s = (Inr row, s')" by simp
    from record_interaction_Inr[OF this] assms Pair show ?thesis by auto
  qed
qed

lemma recompute_derived_ok: "derived_ok (recompute_last_interaction now s)"
  by (simp add: derived_ok_def recompute_last_interaction_def list_all_iff interaction_times_def)


text \<open>
  Claim C1, as the code has it. The recorder stamps an interaction with the clock reading of
  its transaction and writes the same reading into the contact. So from a store in which
  every contact's date is the maximum over its interactions (\<open>NULL\<close> without any), and
  with clock readings that do not decrease and are not earlier than a stored interaction,
  any run of requests keeps every contact's date at that maximum. The statement that ends
  the seed script recomputes the maximum and gives the same on any store, in whatever order
  its interactions were inserted.
\<close>

theorem last_interaction_is_max_in_clock_order:
  assumes "derived_ok s" and "sorted (map fst ops)"
    and "\<forall>i\<in>set (interactions s). \<forall>now\<in>set (map fst ops). timestamp i \<le> now"
  shows "derived_ok (record_all ops s) \<and> derived_ok (recompute_last_interaction now' s')"
proof -
  have "derived_ok (record_all ops s)"
    using assms
  proof (induction ops arbitrary: s)
    case Nil
    then show ?case by simp
  next
    case (Cons op ops)
    obtain now body where op: "op = (now, body)" by (cases op)
    let ?s1 = "snd (record_interaction now body s)"
    have 1: "derived_ok ?s1"
      using Cons.prems(1,3) by (intro record_interaction_derived_ok) (auto simp: op)
    have 2: "sorted (map fst ops)" using Cons.prems(2) by simp
    have 3: "\<forall>i\<in>set (interactions ?s1). \<forall>n\<in>set (map fst ops). timestamp i \<le> n"
    proof
      fix i assume i: "i \<in> set (interactions ?s1)"
      show "\<forall>n\<in>set (map fst ops). timestamp i \<le> n"
      proof
        fix n assume n: "n \<in> set (map fst ops)"
        have "now \<le> n" using Cons.prems(2) n by (auto simp: op)
        moreover have "\<forall>i\<in>set (interactions s). timestamp i \<le> n"
          using Cons.prems(3) n by auto
        ultimately show "timestamp i \<le> n"
          using record_interaction_times_bound[of s n now body] i by blast
      qed
    qed
    from Cons.IH[OF 1 2 3] show ?case by (simp add: op)
  qed
  then show ?thesis by (simp add: recompute_derived_ok)
qed

theorem last_interaction_is_max_in_clock_order_witness:
  "derived_ok example_db \<and>
   sorted (map fst [(days 101, example_request ''Mom'' ''phone_call''),
                    (days 102, example_request ''Mom'' ''sms''),
                    (days 103, example_request ''Mom'' ''email'')]) \<and>
   map timestamp (interactions example_db) = [days 97, days 90, days 53] \<and>
   derived_ok (record_all [(days 101, example_request ''Mom'' ''phone_call''),
                           (days 102, example_request ''Mom'' ''sms''),
                           (days 103, example_request ''Mom'' ''email'')] example_db) \<and>
   map last_interaction_date
     (contacts (record_all [(days 101, example_request ''Mom'' ''phone_call''),
                            (days 102, example_request ''Mom'' ''sms''),
                            (days 103, example_request ''Mom'' ''email'')] example_db)) =
     [Some (days 103), Some (days 53), None]"
proof -
  let ?ops = "[(days 101, example_request ''Mom'' ''phone_call''),
               (days 102, example_request ''Mom'' ''sms''),
               (days 103, example_request ''Mom'' ''email'')]"
  have inv: "derived_ok example_db"
    by (simp add: example_db_eq derived_ok_def interaction_times_def max_timestamp_def)
  have clock: "sorted (map fst ?ops)"
    by (simp add: days_def usec_per_day_def)
  have past: "\<forall>i\<in>set (interactions example_db). \<forall>now\<in>set (map fst ?ops). timestamp i \<le> now"
    by (simp add: example_db_eq days_def usec_per_day_def)
  have last: "map last_interaction_date (contacts (record_all ?ops example_db)) =
      [Some (days 103), Some (days 53), None]"
    by (simp add: example_db_eq seeded_types days_def usec_per_day_def record_defs)
  have stored: "map timestamp (interactions example_db) = [days 97, days 90, days 53]"
    by (simp add: example_db_eq days_def usec_per_day_def)
  from last_interaction_is_max_in_clock_order[OF inv clock past] inv clock stored last
  show ?thesis by simp
qed

text \<open>
  Claim C1 as stated fails for an arbitrary order. \<open>NOW()\<close> is the time at which a
  transaction began, so the transactions of two overlapping requests can reach the contact
  in the opposite order of their readings (as can requests on either side of a clock
  adjustment). Three transactions for the same contact whose readings are 3, 1 and 2 leave
  the date at 2, while the maximum occurrence timestamp is 3.
\<close>

theorem last_interaction_not_max_counterexample:
  "map last_interaction_date
     (contacts (record_all [(3, example_request ''Alice'' ''phone_call''),
                            (1, example_request ''Alice'' ''sms''),
                            (2, example_request ''Alice'' ''email'')] seeded_db)) = [Some 2] \<and>
   interaction_times (record_all [(3, example_request ''Alice'' ''phone_call''),
                            (1, example_request ''Alice'' ''sms''),
                            (2, example_request ''Alice'' ''email'')] seeded_db) 1 = [3, 1, 2] \<and>
   \<not> derived_ok (record_all [(3, example_request ''Alice'' ''phone_call''),
                            (1, example_request ''Alice'' ''sms''),
                            (2, example_request ''Alice'' ''email'')] seeded_db)"
  by (simp add: seeded_db_eq derived_ok_def interaction_times_def max_timestamp_def record_defs)

section \<open>Numbers in the path\<close>










section \<open>Stores the server can reach\<close>

text \<open>
  The recorder keeps the keys of the schema and never leaves a date on a contact without
  interactions, whatever the clock does; so do all runs of requests from the seeded store.
\<close>

lemma filter_Cons_in: "filter P xs = x # rest \<Longrightarrow> x \<in> set xs \<and> P x"
proof -
  assume "filter P xs = x # rest"
  then have "x \<in> set (filter P xs)" by simp
  then show ?thesis by simp
qed

lemma seqs_ahead_ids:
  "seqs_ahead s \<longleftrightarrow> (\<forall>x\<in>c_id ` set (contacts s). x \<le> contacts_id_seq s)"
  by (auto simp: seqs_ahead_def list_all_iff)

lemma store_ok_ids:
  "store_ok s \<longleftrightarrow>
     distinct (map c_id (contacts s)) \<and> distinct (map it_id (interaction_types s)) \<and>
     (\<forall>i\<in>set (interactions s). contact_id i \<in> c_id ` set (contacts s) \<and>
         interaction_type_id i \<in> it_id ` set (interaction_types s))"
  by (auto simp: store_ok_def list_all_iff)

lemma record_interaction_Inl_seq:
  assumes "record_interaction now body s = (Inl e, s')"
  shows "contacts_id_seq s \<le> contacts_id_seq s'"
proof -
  have goc: "contacts_id_seq s \<le> contacts_id_seq s0"
    if "get_or_create_contact now name s = (r, s0)" for name r s0
    using that
    by (auto simp: get_or_create_contact_def insert_contact_def Let_def split: list.splits if_splits)
  have ins: "contacts_id_seq s2 = contacts_id_seq s0"
    if "insert_interaction now cid tid d u j s0 = (r, s2)" for cid tid d u j s0 r s2
    using that by (auto simp: insert_interaction_def Let_def split: if_splits)
  have "contacts_id_seq s \<le> contacts_id_seq s1"
    if "transaction now name ty body s = (r, s1)" for name ty r s1
    using that goc ins
    by (fastforce simp: transaction_def update_last_interaction_def split: prod.splits sum.splits)
  with assms show ?thesis
    by (auto simp: record_interaction_def rollback_def split: option.splits if_splits prod.splits sum.splits)
qed

lemma record_interaction_Inr_keys:
  assumes "record_interaction now body s = (Inr row, s')"
  shows "interaction_type_id row \<in> it_id ` set (interaction_types s) \<and>
         (contact_id row \<in> c_id ` set (contacts s) \<and> contacts s' \<noteq> [] \<and>
            length (contacts s') = length (contacts s) \<and> contacts_id_seq s' = contacts_id_seq s \<or>
          contact_id row = contacts_id_seq s + 1 \<and>
            length (contacts s') = Suc (length (contacts s)) \<and>
            contacts_id_seq s' = contacts_id_seq s + 1)"
proof -
  from assms obtain name ty where body: "body_contact_name body = Some name"
    and tr: "transaction now name ty body s = (Inr row, s')"
    by (auto simp: record_interaction_def split: option.splits if_splits prod.splits sum.splits)
  obtain r s0 where goc: "get_or_create_contact now name s = (r, s0)"
    by (cases "get_or_create_contact now name s")
  from tr goc obtain cid where r: "r = Inr cid"
    by (cases r) (auto simp: transaction_def)
  from tr goc r obtain tid where ty: "lookup_interaction_type ty s0 = Inr tid"
    by (cases "lookup_interaction_type ty s0") (auto simp: transaction_def)
  from tr goc r ty obtain s2 where
    ins: "insert_interaction now cid tid (str_or_null (body_direction body))
            (num_or_null (body_duration_seconds body)) (str_or_null (body_subject body)) s0 = (Inr row, s2)"
    and s': "s' = update_last_interaction now cid s2"
    by (auto simp: transaction_def split: prod.splits sum.splits)
  from ins have row: "contact_id row = cid" "interaction_type_id row = tid"
    and s2: "contacts s2 = contacts s0" "contacts_id_seq s2 = contacts_id_seq s0"
    by (auto simp: insert_interaction_def Let_def split: if_splits)
  from ty have tid: "tid \<in> it_id ` set (interaction_types s0)"
    by (auto simp: lookup_interaction_type_def split: list.splits dest!: filter_Cons_in)
  from goc r have shape:
    "cid \<in> c_id ` set (contacts s) \<and> s0 = s \<or>
     cid = contacts_id_seq s + 1 \<and> contacts s0 = contacts s @ [new_contact now cid name ''unknown''] \<and>
       contacts_id_seq s0 = contacts_id_seq s + 1"
    by (auto simp: get_or_create_contact_def insert_contact_def Let_def
             split: list.splits if_splits dest!: filter_Cons_in)
  from get_or_create_contact_shape[OF goc] have "interaction_types s0 = interaction_types s" by simp
  with tid row shape s2 s' show ?thesis
    by (auto simp: update_last_interaction_def)
qed

lemma record_interaction_store_ok:
  assumes "store_ok s" and "seqs_ahead s"
  shows "store_ok (snd (record_interaction now body s)) \<and>
         seqs_ahead (snd (record_interaction now body s))"
proof (cases "record_interaction now body s")
  case (Pair r s')
  show ?thesis
  proof (cases r)
    case (Inl e)
    with Pair have rec: "record_interaction now body s = (Inl e, s')" by simp
    from record_interaction_Inl[OF rec] record_interaction_Inl_seq[OF rec] assms Pair
    show ?thesis
      by (auto simp: store_ok_ids seqs_ahead_ids)
  next
    case (Inr row)
    with Pair have rec: "record_interaction now body s = (Inr row, s')" by simp
    from record_interaction_Inr[OF rec] obtain name cs where
      cs: "cs = contacts s \<or> cs = contacts s @ [new_contact now (contact_id row) name ''unknown'']"
      and cont: "contacts s' = map (\<lambda>c. if c_id c = contact_id row
                                   then c\<lparr>last_interaction_date := Some now, c_updated_at := now\<rparr>
                                   else c) cs"
      and ints: "interactions s' = interactions s @ [row]"
      and types: "interaction_types s' = interaction_types s"
      by blast
    have ids: "map c_id (contacts s') = map c_id cs"
      unfolding cont by (induction cs) auto
    from record_interaction_Inr_keys[OF rec]
    have tid: "interaction_type_id row \<in> it_id ` set (interaction_types s)"
      and k: "contact_id row \<in> c_id ` set (contacts s) \<and>
            length (contacts s') = length (contacts s) \<and> contacts_id_seq s' = contacts_id_seq s \<or>
          contact_id row = contacts_id_seq s + 1 \<and>
            length (contacts s') = Suc (length (contacts s)) \<and>
            contacts_id_seq s' = contacts_id_seq s + 1"
      by auto
    have len: "length (contacts s') = length cs" unfolding cont by simp
    from k show ?thesis
    proof
      assume old: "contact_id row \<in> c_id ` set (contacts s) \<and>
            length (contacts s') = length (contacts s) \<and> contacts_id_seq s' = contacts_id_seq s"
      with cs len have "cs = contacts s" by auto
      with ids have ids': "map c_id (contacts s') = map c_id (contacts s)" by simp
      then have set': "c_id ` set (contacts s') = c_id ` set (contacts s)"
        by (metis set_map)
      from assms old tid ids' set' ints types Pair show ?thesis
        by (auto simp: store_ok_ids seqs_ahead_ids)
    next
      assume new: "contact_id row = contacts_id_seq s + 1 \<and>
            length (contacts s') = Suc (length (contacts s)) \<and>
            contacts_id_seq s' = contacts_id_seq s + 1"
      with cs len have "cs = contacts s @ [new_contact now (contact_id row) name ''unknown'']" by auto
      with ids have ids': "map c_id (contacts s') = map c_id (contacts s) @ [contact_id row]"
        by (simp add: new_contact_def)
      then have set': "c_id ` set (contacts s') = insert (contact_id row) (c_id ` set (contacts s))"
        by (metis Un_insert_right append_Nil2 list.simps(15) set_append set_map)
      have fresh: "contact_id row \<notin> c_id ` set (contacts s)"
        using assms(2) new by (fastforce simp: seqs_ahead_ids)
      from assms new tid ids' set' fresh ints types Pair show ?thesis
        by (auto simp: store_ok_ids seqs_ahead_ids)
    qed
  qed
qed

lemma record_interaction_never_contacted_null:
  assumes "never_contacted_null s"
  shows "never_contacted_null (snd (record_interaction now body s))"
proof (cases "record_interaction now body s")
  case (Pair r s')
  show ?thesis
  proof (cases r)
    case (Inl e)
    with Pair record_interaction_Inl[of now body s e s'] assms show ?thesis
      by (simp add: never_contacted_null_def interaction_times_def)
  next
    case (Inr row)
    with Pair have rec: "record_interaction now body s = (Inr row, s')" by simp
    from record_interaction_Inr[OF rec] obtain name cs where
      cs: "cs = contacts s \<or> cs = contacts s @ [new_contact now (contact_id row) name ''unknown'']"
      and cont: "contacts s' = map (\<lambda>c. if c_id c = contact_id row
                                   then c\<lparr>last_interaction_date := Some now, c_updated_at := now\<rparr>
                                   else c) cs"
      and ints: "interactions s' = interactions s @ [row]"
      by blast
    have times: "interaction_times s' cid =
        (if cid = contact_id row then interaction_times s cid @ [timestamp row]
         else interaction_times s cid)" for cid
      by (auto simp: interaction_times_def ints)
    have old: "c \<in> set (contacts s) \<Longrightarrow>
        interaction_times s (c_id c) \<noteq> [] \<or> last_interaction_date c = None" for c
      using assms by (simp add: never_contacted_null_def list_all_iff)
    have "c \<in> set cs \<Longrightarrow> c_id c \<noteq> contact_id row \<Longrightarrow>
        interaction_times s (c_id c) \<noteq> [] \<or> last_interaction_date c = None" for c
      using cs old by (auto simp: new_contact_def)
    then have "never_contacted_null s'"
      by (auto simp: never_contacted_null_def list_all_iff cont times)
    with Pair show ?thesis by simp
  qed
qed

lemma derived_ok_never_contacted_null: "derived_ok s \<Longrightarrow> never_contacted_null s"
  by (auto simp: derived_ok_def never_contacted_null_def list_all_iff max_timestamp_def)

lemma record_all_invariants:
  assumes "store_ok s" and "seqs_ahead s" and "never_contacted_null s"
  shows "store_ok (record_all ops s) \<and> seqs_ahead (record_all ops s) \<and>
         never_contacted_null (record_all ops s)"
  using assms
proof (induction ops arbitrary: s)
  case Nil
  then show ?case by simp
next
  case (Cons op ops)
  obtain now body where op: "op = (now, body)" by (cases op)
  from Cons.prems record_interaction_store_ok[of s now body]
    record_interaction_never_contacted_null[of s now body]
  have "store_ok (snd (record_interaction now body s))"
    "seqs_ahead (snd (record_interaction now body s))"
    "never_contacted_null (snd (record_interaction now body s))"
    by simp_all
  from Cons.IH[OF this] show ?case by (simp add: op)
qed

lemma seeded_db_invariants:
  "store_ok seeded_db \<and> seqs_ahead seeded_db \<and> never_contacted_null seeded_db \<and> derived_ok seeded_db"
  by (simp add: seeded_db_eq store_ok_def seqs_ahead_def never_contacted_null_def derived_ok_def)





section \<open>The overdue list\<close>










section \<open>The recent interactions\<close>




















section \<open>Contact details and statistics\<close>

lemma get_contact_stats_always_500:
  "get_contact_stats contactId s = Inl (Status500 ''aggregate function calls cannot be nested'')"
  by (simp add: get_contact_stats_def analyse_def stats_select_list_def)

lemma get_contact_details_not_found:
  assumes "int4 contactId" and "contactId \<notin> c_id ` set (contacts s)"
  shows "get_contact_details contactId s = Inl (Status404 ''Contact not found'')"
proof -
  from assms(2) have "filter (\<lambda>c. c_id c = contactId) (contacts s) = []"
    by (auto simp: filter_empty_conv)
  with assms(1) show ?thesis by (simp add: get_contact_details_def)
qed

lemma list_operations_never_404:
  "(\<exists>rows. get_contacts s = Inr rows) \<and>
   (\<forall>e. get_overdue now days_param s \<noteq> Inl (Status404 e)) \<and>
   (\<forall>e. get_recent_interactions limit_param s \<noteq> Inl (Status404 e)) \<and>
   get_contacts empty_db = Inr [] \<and>
   (parseInt days_param \<noteq> None \<longrightarrow> get_overdue now days_param empty_db = Inr []) \<and>
   (0 \<le> limit_or_10 limit_param \<longrightarrow> get_recent_interactions limit_param empty_db = Inr [])"
  by (auto simp: get_contacts_def get_overdue_def get_recent_interactions_def Let_def
        overdue_query_def recent_query_def recent_join_def empty_db_def split: option.splits)

text \<open>
  Claim C5, on the code. Mom has two interactions, seven days apart, so the average the
  select list describes is 7; but the statement nests \<open>MAX\<close>, \<open>MIN\<close> and \<open>COUNT\<close>
  inside \<open>AVG\<close>, PostgreSQL refuses it, and the handler answers 500.
\<close>

theorem stats_query_rejected:
  "get_contact_stats 1 example_db = Inl (Status500 ''aggregate function calls cannot be nested'') \<and>
   interaction_times example_db 1 = [days 97, days 90] \<and>
   map avg_days_between_interactions (stats_query 1 example_db) = [Some 7]"
  by (simp add: get_contact_stats_def analyse_def stats_select_list_def stats_query_def
        stats_group_def avg_days_def max_timestamp_def min_timestamp_def extract_day_def
        interaction_times_def example_db_eq days_def usec_per_day_def)


text \<open>
  Claim C8, on the code. No contact has the id 999: the details handler answers 404, the
  statistics handler answers 500, because its statement is refused before any row is read.
\<close>

theorem stats_of_missing_contact_not_404:
  "map c_id (contacts example_db) = [1, 2, 3] \<and>
   get_contact_details 999 example_db = Inl (Status404 ''Contact not found'') \<and>
   get_contact_stats 999 example_db = Inl (Status500 ''aggregate function calls cannot be nested'')"
  by (simp add: get_contact_stats_def analyse_def stats_select_list_def get_contact_details_def
        int4_def example_db_eq)


end
